theory Spec2Isabelle
  imports Main "HOL-Library.Sublist"
begin

text \<open>
  A shallow embedding of the Safe proposal module of the ROFL build-and-deploy action
  (\<open>safe.ts\<close>, the module \<open>main.ts\<close> imports as \<open>./safe.js\<close>) and of the two redacted
  debug lines of the entry point (\<open>main.ts\<close>).

  A function that may throw returns a sum: \<open>Inl\<close> the thrown value, \<open>Inr\<close> the result. The
  libraries, the file system and the wallet service are fields of one environment record.
  An asynchronous function returns its result together with the events it caused, in
  order. The informational log lines (\<open>core.info\<close>, \<open>core.warning\<close>, \<open>core.error\<close>) have no
  effect on control flow and are left out.
\<close>

section \<open>JavaScript values used by the action\<close>

text \<open>
  A thrown value. The source throws \<open>new Error(msg)\<close> everywhere; the libraries it calls
  may throw an \<open>Error\<close> or any other value. \<open>JsError m\<close> is an instance of \<open>Error\<close>
  with message \<open>m\<close>; \<open>JsThrown s\<close> is a thrown value that is not an \<open>Error\<close> and
  whose \<open>String(...)\<close> is \<open>s\<close>.
\<close>

datatype js_exn = JsError string | JsThrown string

text \<open>\<open>error instanceof Error ? error.message : String(error)\<close>\<close>

fun errorMessage :: "js_exn \<Rightarrow> string" where
  "errorMessage (JsError m) = m"
| "errorMessage (JsThrown s) = s"

text \<open>\<open>s.startsWith(p)\<close>\<close>

definition startsWith :: "string \<Rightarrow> string \<Rightarrow> bool" where
  "startsWith s p = (take (length p) s = p)"

text \<open>Decimal rendering of an integer, as \<open>toString()\<close> of a bigint gives it.\<close>

definition digitChar :: "nat \<Rightarrow> char" where
  "digitChar d =
     (if d = 0 then CHR ''0'' else if d = 1 then CHR ''1'' else if d = 2 then CHR ''2''
      else if d = 3 then CHR ''3'' else if d = 4 then CHR ''4'' else if d = 5 then CHR ''5''
      else if d = 6 then CHR ''6'' else if d = 7 then CHR ''7'' else if d = 8 then CHR ''8''
      else CHR ''9'')"

fun natToString :: "nat \<Rightarrow> string" where
  "natToString n =
     (if n < 10 then [digitChar n] else natToString (n div 10) @ [digitChar (n mod 10)])"

definition intToString :: "int \<Rightarrow> string" where
  "intToString i = (if i < 0 then CHR ''-'' # natToString (nat (- i)) else natToString (nat i))"

section \<open>Network registry (safe.ts, NETWORKS)\<close>

record network_info =
  runtimeId :: string
  chainId :: int
  grpcApi :: string
  web3Api :: string
  safeApi :: string

definition mainnet :: network_info where
  "mainnet = \<lparr> runtimeId = ''000000000000000000000000000000000000000000000000f80306c9858e7279'',
               chainId = 23294,
               grpcApi = ''https://grpc.oasis.io'',
               web3Api = ''https://sapphire.oasis.io'',
               safeApi = ''https://transaction.safe.oasis.io/api'' \<rparr>"

definition testnet :: network_info where
  "testnet = \<lparr> runtimeId = ''000000000000000000000000000000000000000000000000a6d1e3ebf60dff6c'',
               chainId = 23295,
               grpcApi = ''https://testnet.grpc.oasis.io'',
               web3Api = ''https://testnet.sapphire.oasis.io'',
               safeApi = ''https://transaction-testnet.safe.oasis.io/api'' \<rparr>"

text \<open>
  \<open>NETWORKS\<close> is an object literal and \<open>NETWORKS[networkName]\<close> is a property read with
  an arbitrary string key. A property read follows the prototype chain, and the prototype
  of an object literal is \<open>Object.prototype\<close>, so the read also finds the properties every
  object inherits. Their values are functions (for \<open>__proto__\<close>, the prototype object):
  truthy, and with none of the fields of a network profile.
\<close>

definition objectPrototypeKeys :: "string list" where
  "objectPrototypeKeys =
     [''constructor'', ''__defineGetter__'', ''__defineSetter__'', ''hasOwnProperty'',
      ''__lookupGetter__'', ''__lookupSetter__'', ''isPrototypeOf'', ''propertyIsEnumerable'',
      ''toString'', ''valueOf'', ''__proto__'', ''toLocaleString'']"

datatype network_entry = Profile network_info | Inherited

text \<open>The value of \<open>NETWORKS[name]\<close>; \<open>None\<close> is \<open>undefined\<close>.\<close>

definition NETWORKS :: "string \<Rightarrow> network_entry option" where
  "NETWORKS name =
     (if name = ''mainnet'' then Some (Profile mainnet)
      else if name = ''testnet'' then Some (Profile testnet)
      else if name \<in> set objectPrototypeKeys then Some Inherited
      else None)"

text \<open>Field reads on the looked-up value; an inherited property has none of the fields.\<close>

fun runtimeIdOf :: "network_entry \<Rightarrow> string option" where
  "runtimeIdOf (Profile p) = Some (runtimeId p)"
| "runtimeIdOf Inherited = None"

fun chainIdOf :: "network_entry \<Rightarrow> int option" where
  "chainIdOf (Profile p) = Some (chainId p)"
| "chainIdOf Inherited = None"

fun web3ApiOf :: "network_entry \<Rightarrow> string option" where
  "web3ApiOf (Profile p) = Some (web3Api p)"
| "web3ApiOf Inherited = None"

fun safeApiOf :: "network_entry \<Rightarrow> string option" where
  "safeApiOf (Profile p) = Some (safeApi p)"
| "safeApiOf Inherited = None"

definition unknownNetwork :: "string \<Rightarrow> js_exn" where
  "unknownNetwork networkName =
     JsError (''Unknown network: '' @ networkName @ ''. Supported: mainnet, testnet'')"

section \<open>Artifacts, subcalls and the environment\<close>

text \<open>
  The decoded artifact: a top-level object whose \<open>call\<close> may be missing, with an optional
  \<open>method\<close> string and a \<open>body\<close> (opaque to the action, kept as the bytes it was read as).
\<close>

record call_obj =
  call_method :: "string option"
  call_body :: string

record cbor_envelope =
  cbor_call :: "call_obj option"

text \<open>
  A numeric value as a wrapper may produce it: a bigint, or a number. A number is given by
  whether it is truthy (neither zero nor NaN) and by the text its \<open>toString()\<close> returns
  (the digits for an integer below \<open>1e21\<close>, otherwise a fraction or an exponent form).
\<close>

datatype js_numeric = JsBigInt int | JsNumber bool string

text \<open>What \<open>toSubcall()\<close> of a runtime-call wrapper returns; \<open>sub_value\<close> may be absent.\<close>

record subcall =
  sub_to :: string
  sub_data :: string
  sub_value :: "js_numeric option"

text \<open>The flat descriptor \<open>{to, data, value}\<close> pushed onto \<open>transactions\<close>.\<close>

record tx =
  tx_to :: string
  tx_data :: string
  tx_value :: string

record TransactionFiles =
  updateFile :: "string option"
  deployFile :: "string option"

record SafeInputs =
  safePropose :: bool
  safeAddress :: string
  safeProposerKey :: string
  safeRpcUrl :: string
  safeServiceUrl :: string
  safeChainId :: string
  grpcUrl :: string
  deployment :: string
  dryRun :: bool

text \<open>\<open>OperationType\<close> of the wallet SDK's types module.\<close>

datatype operation_type = Call | DelegateCall

text \<open>One element of the \<open>transactions\<close> array passed to \<open>createTransaction\<close>.\<close>

record meta_tx =
  mt_to :: string
  mt_data :: string
  mt_value :: string
  mt_operation :: operation_type

text \<open>What \<open>signHash\<close> returns.\<close>

record signature =
  signer :: string
  sig_data :: string

text \<open>The argument of \<open>apiKit.proposeTransaction\<close>.\<close>

record proposal =
  p_safeAddress :: string
  p_safeTransactionData :: string
  p_safeTxHash :: string
  p_senderAddress :: string
  p_senderSignature :: string

text \<open>
  The observable effects of a proposal flow, in the order they happen: the calls to the
  wallet service (next-nonce query, propose-transaction), the construction of the batched
  multisig transaction, and the waits between retries (milliseconds).
\<close>

datatype event =
  GetNextNonce string
| Sleep nat
| CreateTransaction "meta_tx list" int
| ProposeTransaction proposal

text \<open>
  The collaborators outside the repository, as the action calls them. For
  \<open>generateTransactions\<close>: the module loader (\<open>Some e\<close> when \<open>require\<close> throws \<open>e\<close>), the
  file system, the CBOR and hex decoders of the chain client, and the two runtime-call
  wrappers, each taken from the runtime identifier and the call body to the subcall it
  builds. For \<open>proposeToSafe\<close>: \<open>BigInt\<close> on a string, the constructors of the wallet
  service client and of the wallet SDK (\<open>Some e\<close> when they throw), and the awaited calls
  on them. An awaited call made during or after the nonce loop is given the events so far,
  so its answer may change from one attempt to the next.
\<close>

record env =
  loadModule :: "string \<Rightarrow> js_exn option"
  existsSync :: "string \<Rightarrow> bool"
  readFileSync :: "string \<Rightarrow> js_exn + string"
  fromCBOR :: "string \<Rightarrow> js_exn + cbor_envelope"
  fromHex :: "string option \<Rightarrow> js_exn + string"
  roflCallUpdate :: "string \<Rightarrow> string \<Rightarrow> subcall"
  roflmarketCallInstanceExecuteCmds :: "string \<Rightarrow> string \<Rightarrow> subcall"
  bigInt :: "string \<Rightarrow> js_exn + int"
  newSafeApiKit :: "int option \<Rightarrow> string option \<Rightarrow> js_exn option"
  safeInit :: "string option \<Rightarrow> string \<Rightarrow> string \<Rightarrow> js_exn option"
  getNextNonce :: "event list \<Rightarrow> string \<Rightarrow> js_exn + int"
  createTransaction :: "event list \<Rightarrow> meta_tx list \<Rightarrow> int \<Rightarrow> js_exn + string"
  getTransactionHash :: "event list \<Rightarrow> string \<Rightarrow> js_exn + string"
  signHash :: "event list \<Rightarrow> string \<Rightarrow> js_exn + signature"
  getAddress :: "event list \<Rightarrow> js_exn + string"
  proposeTransaction :: "event list \<Rightarrow> proposal \<Rightarrow> js_exn option"

section \<open>Subcall generation (safe.ts, generateTransactions)\<close>

text \<open>\<open>{to: t.to, data: t.data, value: t.value ? t.value.toString() : '0'}\<close>\<close>

definition toDescriptor :: "subcall \<Rightarrow> tx" where
  "toDescriptor t =
     \<lparr> tx_to = sub_to t, tx_data = sub_data t,
       tx_value = (case sub_value t of
                     None \<Rightarrow> ''0''
                   | Some (JsBigInt v) \<Rightarrow> if v \<noteq> 0 then intToString v else ''0''
                   | Some (JsNumber truthy text) \<Rightarrow> if truthy then text else ''0'') \<rparr>"

definition typeErrorBody :: js_exn where
  "typeErrorBody =
     JsError (''Cannot read properties of undefined (reading '' @ [CHR 0x27] @ ''body''
              @ [CHR 0x27] @ '')'')"

definition unsupportedMethod :: "string \<Rightarrow> js_exn" where
  "unsupportedMethod m =
     JsError (''Unsupported deploy CBOR method: '' @ m @ ''. ''
              @ ''Supported methods: rofl.Update, roflmarket.*'')"

text \<open>
  The block "Process update file": the update artifact is wrapped with the rofl wrapper's
  update call whatever method it declares. Reading \<open>updateCbor.call.body\<close> when \<open>call\<close> is
  missing throws a \<open>TypeError\<close>.
\<close>

definition processUpdateFile :: "env \<Rightarrow> TransactionFiles \<Rightarrow> string \<Rightarrow> tx list \<Rightarrow> js_exn + tx list" where
  "processUpdateFile E files sapphireRuntimeId transactions =
     (case updateFile files of
        None \<Rightarrow> Inr transactions
      | Some f \<Rightarrow>
          if f \<noteq> [] \<and> existsSync E f then
            (case readFileSync E f of
               Inl e \<Rightarrow> Inl e
             | Inr updateData \<Rightarrow>
                 (case fromCBOR E updateData of
                    Inl e \<Rightarrow> Inl e
                  | Inr updateCbor \<Rightarrow>
                      (case cbor_call updateCbor of
                         None \<Rightarrow> Inl typeErrorBody
                       | Some c \<Rightarrow>
                           Inr (transactions @
                                [toDescriptor (roflCallUpdate E sapphireRuntimeId (call_body c))]))))
          else Inr transactions)"

text \<open>
  The block "Process deploy file". The guard \<open>deployCbor.call && deployCbor.call.method\<close>
  has no \<open>else\<close>: with \<open>call\<close> missing, \<open>method\<close> missing or \<open>method\<close> the empty string,
  nothing is pushed and nothing is thrown.
\<close>

definition processDeployFile :: "env \<Rightarrow> TransactionFiles \<Rightarrow> string \<Rightarrow> tx list \<Rightarrow> js_exn + tx list" where
  "processDeployFile E files sapphireRuntimeId transactions =
     (case deployFile files of
        None \<Rightarrow> Inr transactions
      | Some f \<Rightarrow>
          if f \<noteq> [] \<and> existsSync E f then
            (case readFileSync E f of
               Inl e \<Rightarrow> Inl e
             | Inr deployData \<Rightarrow>
                 (case fromCBOR E deployData of
                    Inl e \<Rightarrow> Inl e
                  | Inr deployCbor \<Rightarrow>
                      (case cbor_call deployCbor of
                         None \<Rightarrow> Inr transactions
                       | Some c \<Rightarrow>
                           (case call_method c of
                              None \<Rightarrow> Inr transactions
                            | Some m \<Rightarrow>
                                if m \<noteq> [] then
                                  (if startsWith m ''roflmarket.'' then
                                     Inr (transactions @
                                          [toDescriptor (roflmarketCallInstanceExecuteCmds E
                                             sapphireRuntimeId (call_body c))])
                                   else Inl (unsupportedMethod m))
                                else Inr transactions))))
          else Inr transactions)"

definition generateTransactions :: "env \<Rightarrow> TransactionFiles \<Rightarrow> string \<Rightarrow> js_exn + tx list" where
  "generateTransactions E files networkName =
     (case NETWORKS networkName of
        None \<Rightarrow> Inl (unknownNetwork networkName)
      | Some networkInfo \<Rightarrow>
          (case loadModule E ''@oasisprotocol/client'' of
             Some e \<Rightarrow> Inl e
           | None \<Rightarrow>
               (case loadModule E ''@oasisprotocol/client-rt'' of
                  Some e \<Rightarrow> Inl e
                | None \<Rightarrow>
                    (case fromHex E (runtimeIdOf networkInfo) of
                       Inl e \<Rightarrow> Inl e
                     | Inr sapphireRuntimeId \<Rightarrow>
                         (case processUpdateFile E files sapphireRuntimeId [] of
                            Inl e \<Rightarrow> Inl e
                          | Inr transactions \<Rightarrow>
                              processDeployFile E files sapphireRuntimeId transactions)))))"

section \<open>Proposal flow (safe.ts, proposeToSafe)\<close>

text \<open>
  \<open>inputs.safeRpcUrl || networkInfo.web3Api\<close>, \<open>inputs.safeServiceUrl || networkInfo.safeApi\<close>
  and \<open>inputs.safeChainId ? BigInt(inputs.safeChainId) : networkInfo.chainId\<close>.
\<close>

definition rpcUrl :: "SafeInputs \<Rightarrow> network_entry \<Rightarrow> string option" where
  "rpcUrl inputs networkInfo =
     (if safeRpcUrl inputs \<noteq> [] then Some (safeRpcUrl inputs) else web3ApiOf networkInfo)"

definition serviceUrl :: "SafeInputs \<Rightarrow> network_entry \<Rightarrow> string option" where
  "serviceUrl inputs networkInfo =
     (if safeServiceUrl inputs \<noteq> [] then Some (safeServiceUrl inputs) else safeApiOf networkInfo)"

definition effectiveChainId :: "env \<Rightarrow> SafeInputs \<Rightarrow> network_entry \<Rightarrow> js_exn + int option" where
  "effectiveChainId E inputs networkInfo =
     (if safeChainId inputs \<noteq> [] then
        (case bigInt E (safeChainId inputs) of Inl e \<Rightarrow> Inl e | Inr n \<Rightarrow> Inr (Some n))
      else Inr (chainIdOf networkInfo))"

definition noTransactions :: js_exn where
  "noTransactions = JsError ''No transaction files found to propose''"

text \<open>
  From the network lookup to \<open>Safe.init\<close>: the network check, the modules, the subcalls,
  the check that there is one at least, the overrides, the two clients. Nothing here
  reaches the wallet service.
\<close>

definition initSafe :: "env \<Rightarrow> SafeInputs \<Rightarrow> TransactionFiles \<Rightarrow> string \<Rightarrow> js_exn + tx list" where
  "initSafe E inputs files networkName =
     (case NETWORKS networkName of
        None \<Rightarrow> Inl (unknownNetwork networkName)
      | Some networkInfo \<Rightarrow>
     (case loadModule E ''xhr2'' of Some e \<Rightarrow> Inl e | None \<Rightarrow>
     (case loadModule E ''@safe-global/protocol-kit'' of Some e \<Rightarrow> Inl e | None \<Rightarrow>
     (case loadModule E ''@safe-global/api-kit'' of Some e \<Rightarrow> Inl e | None \<Rightarrow>
     (case loadModule E ''@safe-global/types-kit'' of Some e \<Rightarrow> Inl e | None \<Rightarrow>
     (case generateTransactions E files networkName of Inl e \<Rightarrow> Inl e | Inr transactions \<Rightarrow>
        if length transactions = 0 then Inl noTransactions
        else
     (case effectiveChainId E inputs networkInfo of Inl e \<Rightarrow> Inl e | Inr cid \<Rightarrow>
     (case newSafeApiKit E cid (serviceUrl inputs networkInfo) of Some e \<Rightarrow> Inl e | None \<Rightarrow>
     (case safeInit E (rpcUrl inputs networkInfo) (safeProposerKey inputs) (safeAddress inputs) of
        Some e \<Rightarrow> Inl e
      | None \<Rightarrow> Inr transactions)))))))))"

text \<open>
  The nonce loop: \<open>for (let attempt = 1; attempt <= nonceMaxRetries; attempt++)\<close> with
  \<open>nonce\<close> starting at 0. A successful query breaks out; a failed one at the last attempt
  throws the wrapped message, and before that waits \<open>1000 * attempt\<close> milliseconds.
\<close>

definition nonceMaxRetries :: nat where
  "nonceMaxRetries = 3"

definition nonceFailed :: "js_exn \<Rightarrow> js_exn" where
  "nonceFailed error =
     JsError (''Failed to get nonce after '' @ natToString nonceMaxRetries @ '' attempts: ''
              @ errorMessage error)"

function nonceLoop :: "env \<Rightarrow> string \<Rightarrow> nat \<Rightarrow> int \<Rightarrow> event list \<Rightarrow> (js_exn + int) \<times> event list" where
  "nonceLoop E addr attempt nonce tr =
     (if attempt \<le> nonceMaxRetries then
        (case getNextNonce E tr addr of
           Inr n \<Rightarrow> (Inr n, tr @ [GetNextNonce addr])
         | Inl error \<Rightarrow>
             if attempt = nonceMaxRetries then (Inl (nonceFailed error), tr @ [GetNextNonce addr])
             else nonceLoop E addr (attempt + 1) nonce
                    (tr @ [GetNextNonce addr, Sleep (1000 * attempt)]))
      else (Inr nonce, tr))"
  by pat_completeness auto
termination
  by (relation "measure (\<lambda>(E, addr, attempt, nonce, tr). Suc nonceMaxRetries - attempt)") auto

definition resolveNonce :: "env \<Rightarrow> string \<Rightarrow> event list \<Rightarrow> (js_exn + int) \<times> event list" where
  "resolveNonce E addr tr = nonceLoop E addr 1 0 tr"

text \<open>
  \<open>transactions.map(tx => ({...tx, value: tx.value || '0', operation: OperationType.Call}))\<close>
\<close>

definition metaTransactions :: "tx list \<Rightarrow> meta_tx list" where
  "metaTransactions transactions =
     map (\<lambda>t. \<lparr> mt_to = tx_to t, mt_data = tx_data t,
                 mt_value = (if tx_value t \<noteq> [] then tx_value t else ''0''),
                 mt_operation = Call \<rparr>) transactions"

text \<open>The signed proposal: \<open>safeTransaction.data\<close>, \<open>safeTxHash\<close> and \<open>signature\<close>.\<close>

record signed_proposal =
  sp_transactionData :: string
  sp_safeTxHash :: string
  sp_signature :: signature

definition buildAndSign :: "env \<Rightarrow> tx list \<Rightarrow> int \<Rightarrow> event list \<Rightarrow> (js_exn + signed_proposal) \<times> event list" where
  "buildAndSign E transactions nonce tr =
     (let tr1 = tr @ [CreateTransaction (metaTransactions transactions) nonce] in
      case createTransaction E tr (metaTransactions transactions) nonce of
        Inl e \<Rightarrow> (Inl e, tr1)
      | Inr safeTransaction \<Rightarrow>
          (case getTransactionHash E tr1 safeTransaction of
             Inl e \<Rightarrow> (Inl e, tr1)
           | Inr safeTxHash \<Rightarrow>
               (case signHash E tr1 safeTxHash of
                  Inl e \<Rightarrow> (Inl e, tr1)
                | Inr sg \<Rightarrow>
                    (Inr \<lparr> sp_transactionData = safeTransaction, sp_safeTxHash = safeTxHash,
                           sp_signature = sg \<rparr>, tr1))))"

text \<open>
  One pass through the \<open>try\<close> block of the submission loop: \<open>protocolKit.getAddress()\<close> is
  awaited first, inside the \<open>try\<close>; a throw there is a failed attempt that never reaches
  the wallet service.
\<close>

definition proposeAttempt :: "env \<Rightarrow> signed_proposal \<Rightarrow> event list \<Rightarrow> js_exn option \<times> event list" where
  "proposeAttempt E sp tr =
     (case getAddress E tr of
        Inl e \<Rightarrow> (Some e, tr)
      | Inr a \<Rightarrow>
          (let req = \<lparr> p_safeAddress = a, p_safeTransactionData = sp_transactionData sp,
                       p_safeTxHash = sp_safeTxHash sp,
                       p_senderAddress = signer (sp_signature sp),
                       p_senderSignature = sig_data (sp_signature sp) \<rparr>
           in (proposeTransaction E tr req, tr @ [ProposeTransaction req])))"

definition maxRetries :: nat where
  "maxRetries = 2"

text \<open>
  \<open>while (retryCount <= maxRetries)\<close>: a failed attempt increments \<open>retryCount\<close>, rethrows
  the caught value itself once \<open>retryCount > maxRetries\<close>, and otherwise waits
  \<open>1000 * retryCount\<close> milliseconds. The \<open>throw\<close> after the loop is its last branch.
\<close>

function proposeLoop :: "env \<Rightarrow> signed_proposal \<Rightarrow> nat \<Rightarrow> event list \<Rightarrow> (js_exn + string) \<times> event list" where
  "proposeLoop E sp retryCount tr =
     (if retryCount \<le> maxRetries then
        (case proposeAttempt E sp tr of
           (None, tr1) \<Rightarrow> (Inr (sp_safeTxHash sp), tr1)
         | (Some error, tr1) \<Rightarrow>
             if retryCount + 1 > maxRetries then (Inl error, tr1)
             else proposeLoop E sp (retryCount + 1) (tr1 @ [Sleep (1000 * (retryCount + 1))]))
      else (Inl (JsError ''Failed to propose transaction after all retries''), tr))"
  by pat_completeness auto
termination
  by (relation "measure (\<lambda>(E, sp, retryCount, tr). Suc maxRetries - retryCount)") auto

text \<open>
  The submission pipeline: in a dry run the hash is returned at once; otherwise the
  submission loop runs from \<open>retryCount = 0\<close>.
\<close>

definition submit :: "env \<Rightarrow> SafeInputs \<Rightarrow> signed_proposal \<Rightarrow> event list \<Rightarrow> (js_exn + string) \<times> event list" where
  "submit E inputs sp tr =
     (if dryRun inputs then (Inr (sp_safeTxHash sp), tr) else proposeLoop E sp 0 tr)"

text \<open>Everything before the submission pipeline: setup, nonce, build and sign.\<close>

definition signProposal :: "env \<Rightarrow> SafeInputs \<Rightarrow> TransactionFiles \<Rightarrow> string \<Rightarrow> (js_exn + signed_proposal) \<times> event list" where
  "signProposal E inputs files networkName =
     (case initSafe E inputs files networkName of
        Inl e \<Rightarrow> (Inl e, [])
      | Inr transactions \<Rightarrow>
          (case resolveNonce E (safeAddress inputs) [] of
             (Inl e, tr) \<Rightarrow> (Inl e, tr)
           | (Inr nonce, tr) \<Rightarrow> buildAndSign E transactions nonce tr))"

definition proposeToSafe :: "env \<Rightarrow> SafeInputs \<Rightarrow> TransactionFiles \<Rightarrow> string \<Rightarrow> (js_exn + string) \<times> event list" where
  "proposeToSafe E inputs files networkName =
     (case signProposal E inputs files networkName of
        (Inl e, tr) \<Rightarrow> (Inl e, tr)
      | (Inr sp, tr) \<Rightarrow> submit E inputs sp tr)"

text \<open>\<open>runSafeProposal\<close>: \<open>None\<close> is the \<open>undefined\<close> returned when proposing is off.\<close>

definition runSafeProposal :: "env \<Rightarrow> SafeInputs \<Rightarrow> TransactionFiles \<Rightarrow> string \<Rightarrow> (js_exn + string option) \<times> event list" where
  "runSafeProposal E inputs files networkName =
     (if \<not> safePropose inputs then (Inr None, [])
      else if safeAddress inputs = [] then
        (Inl (JsError ''safe_address is required when safe_propose is enabled''), [])
      else if safeProposerKey inputs = [] then
        (Inl (JsError ''safe_proposer_key is required when safe_propose is enabled''), [])
      else (case proposeToSafe E inputs files networkName of
              (Inl e, tr) \<Rightarrow> (Inl e, tr)
            | (Inr h, tr) \<Rightarrow> (Inr (Some h), tr)))"

text \<open>How often a run reached the wallet service or built a transaction.\<close>

fun isGetNextNonce :: "event \<Rightarrow> bool" where
  "isGetNextNonce (GetNextNonce a) = True"
| "isGetNextNonce other = False"

fun isProposeTransaction :: "event \<Rightarrow> bool" where
  "isProposeTransaction (ProposeTransaction p) = True"
| "isProposeTransaction other = False"

fun isCreateTransaction :: "event \<Rightarrow> bool" where
  "isCreateTransaction (CreateTransaction ms n) = True"
| "isCreateTransaction other = False"

definition nonceCalls :: "event list \<Rightarrow> nat" where
  "nonceCalls tr = length (filter isGetNextNonce tr)"

definition proposeCalls :: "event list \<Rightarrow> nat" where
  "proposeCalls tr = length (filter isProposeTransaction tr)"

definition createCalls :: "event list \<Rightarrow> nat" where
  "createCalls tr = length (filter isCreateTransaction tr)"

section \<open>Debug output of the entry point (main.ts, run)\<close>

text \<open>
  The \<open>inputs\<close> object: its properties in the order the object literal lists them, each a
  string (\<open>core.getInput(name)\<close>) or a boolean (\<open>core.getInput(name) === 'true'\<close>).
  \<open>getInput\<close> is the action's input table.
\<close>

datatype json = JString string | JBool bool

definition collectInputs :: "(string \<Rightarrow> string) \<Rightarrow> (string \<times> json) list" where
  "collectInputs getInput =
     [
      (''cliVersion'', JString (getInput ''cli_version'')),
      (''checkUpdates'', JBool (getInput ''check_updates'' = ''true'')),
      (''createUpdatePr'', JBool (getInput ''create_update_pr'' = ''true'')),
      (''config'', JString (getInput ''config'')),
      (''deployment'', JString (getInput ''deployment'')),
      (''encrypted'', JBool (getInput ''encrypted'' = ''true'')),
      (''feeDenom'', JString (getInput ''fee_denom'')),
      (''force'', JBool (getInput ''force'' = ''true'')),
      (''format'', JString (getInput ''format'')),
      (''gasLimit'', JString (getInput ''gas_limit'')),
      (''gasPrice'', JString (getInput ''gas_price'')),
      (''machine'', JString (getInput ''machine'')),
      (''network'', JString (getInput ''network'')),
      (''noContainer'', JBool (getInput ''no_container'' = ''true'')),
      (''noUpdateManifest'', JBool (getInput ''no_update_manifest'' = ''true'')),
      (''updateManifest'', JBool (getInput ''update_manifest'' = ''true'')),
      (''nonce'', JString (getInput ''nonce'')),
      (''offer'', JString (getInput ''offer'')),
      (''offline'', JBool (getInput ''offline'' = ''true'')),
      (''onlyValidate'', JBool (getInput ''only_validate'' = ''true'')),
      (''output'', JString (getInput ''output'')),
      (''outputFile'', JString (getInput ''output_file'')),
      (''provider'', JString (getInput ''provider'')),
      (''replaceMachine'', JBool (getInput ''replace_machine'' = ''true'')),
      (''showOffers'', JBool (getInput ''show_offers'' = ''true'')),
      (''term'', JString (getInput ''term'')),
      (''termCount'', JString (getInput ''term_count'')),
      (''unsigned'', JBool (getInput ''unsigned'' = ''true'')),
      (''verbose'', JBool (getInput ''verbose'' = ''true'')),
      (''verify'', JBool (getInput ''verify'' = ''true'')),
      (''walletAccount'', JString (getInput ''wallet_account'')),
      (''walletImport'', JBool (getInput ''wallet_import'' = ''true'')),
      (''walletAlgorithm'', JString (getInput ''wallet_algorithm'')),
      (''walletNumber'', JString (getInput ''wallet_number'')),
      (''walletSecret'', JString (getInput ''wallet_secret'')),
      (''wipeStorage'', JBool (getInput ''wipe_storage'' = ''true'')),
      (''workingDirectory'', JString (getInput ''working_directory'')),
      (''skipBuild'', JBool (getInput ''skip_build'' = ''true'')),
      (''skipUpdate'', JBool (getInput ''skip_update'' = ''true'')),
      (''skipDeploy'', JBool (getInput ''skip_deploy'' = ''true'')),
      (''updateOutputFile'', JString (getInput ''update_output_file'')),
      (''deployOutputFile'', JString (getInput ''deploy_output_file'')),
      (''safeAddress'', JString (getInput ''safe_address'')),
      (''safeProposerKey'', JString (getInput ''safe_proposer_key'')),
      (''safeRpcUrl'', JString (getInput ''safe_rpc_url'')),
      (''safeServiceUrl'', JString (getInput ''safe_service_url'')),
      (''safeChainId'', JString (getInput ''safe_chain_id'')),
      (''safeDryRun'', JBool (getInput ''safe_dry_run'' = ''true''))
     ]"

text \<open>
  Setting a property, as the object spread \<open>{...inputs, k: v}\<close> does for each listed key: an
  existing key keeps its place and takes the new value, a new key goes last.
\<close>

fun setProp :: "(string \<times> json) list \<Rightarrow> string \<Rightarrow> json \<Rightarrow> (string \<times> json) list" where
  "setProp [] k v = [(k, v)]"
| "setProp ((k', v') # ps) k v =
     (if k' = k then (k', v) # ps else (k', v') # setProp ps k v)"

text \<open>Reading a string property; the empty string stands for a missing one.\<close>

definition strField :: "(string \<times> json) list \<Rightarrow> string \<Rightarrow> string" where
  "strField obj k = (case map_of obj k of Some (JString s) \<Rightarrow> s | Some (JBool b) \<Rightarrow> [] | None \<Rightarrow> [])"

text \<open>\<open>Array.prototype.join\<close>\<close>

fun join :: "string \<Rightarrow> string list \<Rightarrow> string" where
  "join sep [] = []"
| "join sep [x] = x"
| "join sep (x # y # ys) = x @ sep @ join sep (y # ys)"

text \<open>
  \<open>JSON.stringify\<close> of such an object. \<open>quote\<close> is \<open>JSON.stringify\<close> on a string (the
  quoting and escaping of the language), taken as a parameter.
\<close>

definition stringifyValue :: "(string \<Rightarrow> string) \<Rightarrow> json \<Rightarrow> string" where
  "stringifyValue quote v =
     (case v of JString s \<Rightarrow> quote s | JBool b \<Rightarrow> if b then ''true'' else ''false'')"

definition stringify :: "(string \<Rightarrow> string) \<Rightarrow> (string \<times> json) list \<Rightarrow> string" where
  "stringify quote obj =
     ''{'' @ join '','' (map (\<lambda>(k, v). quote k @ '':'' @ stringifyValue quote v) obj) @ ''}''"

definition redactedInputs :: "(string \<times> json) list \<Rightarrow> (string \<times> json) list" where
  "redactedInputs inputs =
     setProp (setProp inputs ''safeProposerKey'' (JString ''***'')) ''walletSecret'' (JString ''***'')"

text \<open>The first debug line of \<open>run\<close>.\<close>

definition collectedInputsDebug :: "(string \<Rightarrow> string) \<Rightarrow> (string \<Rightarrow> string) \<Rightarrow> string" where
  "collectedInputsDebug quote getInput =
     ''Collected inputs: '' @ stringify quote (redactedInputs (collectInputs getInput))"

definition walletImportArgs :: "(string \<times> json) list \<Rightarrow> string list" where
  "walletImportArgs inputs =
     [''wallet'', ''import'', strField inputs ''walletAccount'', ''--yes'']
     @ (if strField inputs ''walletAlgorithm'' \<noteq> []
        then [''--algorithm'', strField inputs ''walletAlgorithm''] else [])
     @ (if strField inputs ''config'' \<noteq> [] then [''--config'', strField inputs ''config''] else [])
     @ (if strField inputs ''walletNumber'' \<noteq> []
        then [''--number'', strField inputs ''walletNumber''] else [])
     @ (if strField inputs ''walletSecret'' \<noteq> []
        then [''--secret'', strField inputs ''walletSecret''] else [])"

text \<open>
  \<open>args.map((arg, i) => args[i - 1] === '--secret' ? '***' : arg)\<close>; at \<open>i = 0\<close> the read
  \<open>args[-1]\<close> is \<open>undefined\<close>.
\<close>

definition redactedWalletArgs :: "string list \<Rightarrow> string list" where
  "redactedWalletArgs args =
     map (\<lambda>i. if i \<noteq> 0 \<and> args ! (i - 1) = ''--secret'' then ''***'' else args ! i)
         [0 ..< length args]"

text \<open>The debug line for the wallet import command.\<close>

definition walletArgsDebug :: "(string \<times> json) list \<Rightarrow> string" where
  "walletArgsDebug inputs =
     ''Built walletImportArgs: '' @ join '' '' (redactedWalletArgs (walletImportArgs inputs))"

section \<open>A test double for the collaborators\<close>

text \<open>
  An environment for concrete runs: every module loads; the file system holds the listed
  artifacts (a file's content is named by its path); the two wrappers tag the call body
  with their method; the wallet service answers the k-th next-nonce query and the k-th
  proposal with the k-th element of the given lists.
\<close>

definition respond :: "'a list \<Rightarrow> nat \<Rightarrow> 'a \<Rightarrow> 'a" where
  "respond rs k d = (if k < length rs then rs ! k else d)"

definition mockEnv :: "(string \<times> cbor_envelope) list \<Rightarrow> (js_exn + int) list \<Rightarrow> js_exn option list \<Rightarrow> env" where
  "mockEnv fs nonces proposals =
     \<lparr> loadModule = (\<lambda>m. None),
       existsSync = (\<lambda>f. map_of fs f \<noteq> None),
       readFileSync = (\<lambda>f. Inr f),
       fromCBOR = (\<lambda>d. case map_of fs d of None \<Rightarrow> Inl (JsError ''not CBOR'') | Some c \<Rightarrow> Inr c),
       fromHex = (\<lambda>h. case h of None \<Rightarrow> Inl (JsError ''fromHex: not a string'') | Some s \<Rightarrow> Inr s),
       roflCallUpdate =
         (\<lambda>rt b. \<lparr> sub_to = ''0x0100000000000000000000000000000000000103'',
                    sub_data = ''rofl.Update:'' @ b, sub_value = None \<rparr>),
       roflmarketCallInstanceExecuteCmds =
         (\<lambda>rt b. \<lparr> sub_to = ''0x0100000000000000000000000000000000000103'',
                    sub_data = ''roflmarket.InstanceExecuteCmds:'' @ b, sub_value = None \<rparr>),
       bigInt = (\<lambda>s. if s = ''23295'' then Inr 23295 else Inl (JsError ''Cannot convert to a BigInt'')),
       newSafeApiKit = (\<lambda>c u. None),
       safeInit = (\<lambda>p k a. None),
       getNextNonce = (\<lambda>tr a. respond nonces (nonceCalls tr) (Inl (JsError ''no answer''))),
       createTransaction = (\<lambda>tr ms n. Inr ''safe-transaction''),
       getTransactionHash = (\<lambda>tr t. Inr ''0xhash''),
       signHash = (\<lambda>tr h. Inr \<lparr> signer = ''0xproposer'', sig_data = ''0xsignature'' \<rparr>),
       getAddress = (\<lambda>tr. Inr ''0xsafe''),
       proposeTransaction =
         (\<lambda>tr p. respond proposals (proposeCalls tr) (Some (JsError ''no answer''))) \<rparr>"

definition artifact :: "string option \<Rightarrow> string \<Rightarrow> cbor_envelope" where
  "artifact m b = \<lparr> cbor_call = Some \<lparr> call_method = m, call_body = b \<rparr> \<rparr>"

definition updateOnly :: TransactionFiles where
  "updateOnly = \<lparr> updateFile = Some ''update.cbor'', deployFile = None \<rparr>"

definition deployOnly :: TransactionFiles where
  "deployOnly = \<lparr> updateFile = None, deployFile = Some ''deploy.cbor'' \<rparr>"

definition bothFiles :: TransactionFiles where
  "bothFiles = \<lparr> updateFile = Some ''update.cbor'', deployFile = Some ''deploy.cbor'' \<rparr>"

definition testInputs :: "bool \<Rightarrow> SafeInputs" where
  "testInputs dry =
     \<lparr> safePropose = True, safeAddress = ''0xsafe'', safeProposerKey = ''0xkey'',
       safeRpcUrl = [], safeServiceUrl = [], safeChainId = [], grpcUrl = [],
       deployment = ''testnet'', dryRun = dry \<rparr>"

text \<open>
  An input table for concrete runs of the entry point: the wallet secret and the proposer
  key are the given string, the wallet account is set, every other input is empty.
\<close>

definition secretInput :: "string \<Rightarrow> string \<Rightarrow> string" where
  "secretInput secret name =
     (if name = ''wallet_secret'' then secret
      else if name = ''safe_proposer_key'' then secret
      else if name = ''wallet_account'' then ''deployer''
      else [])"

text \<open>Quoting of a string that needs no escaping.\<close>

definition plainQuote :: "string \<Rightarrow> string" where
  "plainQuote s = CHR 0x22 # s @ [CHR 0x22]"

section \<open>Unfolding the two retry loops\<close>

declare nonceLoop.simps [simp del]
declare proposeLoop.simps [simp del]

lemma mockEnv_fields:
  "loadModule (mockEnv fs ns ps) = (\<lambda>m. None)"
  "existsSync (mockEnv fs ns ps) = (\<lambda>f. map_of fs f \<noteq> None)"
  "readFileSync (mockEnv fs ns ps) = (\<lambda>f. Inr f)"
  "fromCBOR (mockEnv fs ns ps) =
     (\<lambda>d. case map_of fs d of None \<Rightarrow> Inl (JsError ''not CBOR'') | Some c \<Rightarrow> Inr c)"
  "fromHex (mockEnv fs ns ps) =
     (\<lambda>h. case h of None \<Rightarrow> Inl (JsError ''fromHex: not a string'') | Some s \<Rightarrow> Inr s)"
  "roflCallUpdate (mockEnv fs ns ps) =
     (\<lambda>rt b. \<lparr> sub_to = ''0x0100000000000000000000000000000000000103'',
                sub_data = ''rofl.Update:'' @ b, sub_value = None \<rparr>)"
  "roflmarketCallInstanceExecuteCmds (mockEnv fs ns ps) =
     (\<lambda>rt b. \<lparr> sub_to = ''0x0100000000000000000000000000000000000103'',
                sub_data = ''roflmarket.InstanceExecuteCmds:'' @ b, sub_value = None \<rparr>)"
  "newSafeApiKit (mockEnv fs ns ps) = (\<lambda>c u. None)"
  "safeInit (mockEnv fs ns ps) = (\<lambda>p k a. None)"
  "getNextNonce (mockEnv fs ns ps) =
     (\<lambda>tr a. respond ns (nonceCalls tr) (Inl (JsError ''no answer'')))"
  "createTransaction (mockEnv fs ns ps) = (\<lambda>tr ms n. Inr ''safe-transaction'')"
  "getTransactionHash (mockEnv fs ns ps) = (\<lambda>tr t. Inr ''0xhash'')"
  "signHash (mockEnv fs ns ps) =
     (\<lambda>tr h. Inr \<lparr> signer = ''0xproposer'', sig_data = ''0xsignature'' \<rparr>)"
  "getAddress (mockEnv fs ns ps) = (\<lambda>tr. Inr ''0xsafe'')"
  "proposeTransaction (mockEnv fs ns ps) =
     (\<lambda>tr p. respond ps (proposeCalls tr) (Some (JsError ''no answer'')))"
  by (simp_all add: mockEnv_def)

lemma nonceLoop_unfold3:
  "nonceLoop E a (Suc (Suc (Suc 0))) n tr =
     (case getNextNonce E tr a of
        Inr m \<Rightarrow> (Inr m, tr @ [GetNextNonce a])
      | Inl e \<Rightarrow> (Inl (nonceFailed e), tr @ [GetNextNonce a]))"
  by (subst nonceLoop.simps) (simp add: nonceMaxRetries_def split: sum.splits)

lemma nonceLoop_unfold2:
  "nonceLoop E a (Suc (Suc 0)) n tr =
     (case getNextNonce E tr a of
        Inr m \<Rightarrow> (Inr m, tr @ [GetNextNonce a])
      | Inl e \<Rightarrow> nonceLoop E a (Suc (Suc (Suc 0))) n (tr @ [GetNextNonce a, Sleep 2000]))"
  by (subst nonceLoop.simps) (simp add: nonceMaxRetries_def split: sum.splits)

lemma nonceLoop_unfold1:
  "nonceLoop E a (Suc 0) n tr =
     (case getNextNonce E tr a of
        Inr m \<Rightarrow> (Inr m, tr @ [GetNextNonce a])
      | Inl e \<Rightarrow> nonceLoop E a (Suc (Suc 0)) n (tr @ [GetNextNonce a, Sleep 1000]))"
  by (subst nonceLoop.simps) (simp add: nonceMaxRetries_def split: sum.splits)

lemma nonceFailed_message:
  "nonceFailed e = JsError (''Failed to get nonce after 3 attempts: '' @ errorMessage e)"
  by (simp add: nonceFailed_def nonceMaxRetries_def digitChar_def)


lemma nonceLoop_calls:
  "nonceCalls (snd (nonceLoop E a k n tr)) \<le> nonceCalls tr + (Suc nonceMaxRetries - k)
   \<and> proposeCalls (snd (nonceLoop E a k n tr)) = proposeCalls tr
   \<and> createCalls (snd (nonceLoop E a k n tr)) = createCalls tr"
proof (induction E a k n tr rule: nonceLoop.induct)
  case (1 E addr attempt nonce tr)
  show ?case
  proof (cases "attempt \<le> nonceMaxRetries")
    case False
    then have "nonceLoop E addr attempt nonce tr = (Inr nonce, tr)"
      by (subst nonceLoop.simps) simp
    then show ?thesis by simp
  next
    case le: True
    show ?thesis
    proof (cases "getNextNonce E tr addr")
      case (Inr m)
      with le have "nonceLoop E addr attempt nonce tr = (Inr m, tr @ [GetNextNonce addr])"
        by (subst nonceLoop.simps) simp
      with le show ?thesis
        by (simp add: nonceCalls_def proposeCalls_def createCalls_def)
    next
      case (Inl e)
      show ?thesis
      proof (cases "attempt = nonceMaxRetries")
        case True
        with le Inl have "nonceLoop E addr attempt nonce tr =
            (Inl (nonceFailed e), tr @ [GetNextNonce addr])"
          by (subst nonceLoop.simps) simp
        with le show ?thesis
          by (simp add: nonceCalls_def proposeCalls_def createCalls_def)
      next
        case False
        with le Inl have "nonceLoop E addr attempt nonce tr =
            nonceLoop E addr (attempt + 1) nonce (tr @ [GetNextNonce addr, Sleep (1000 * attempt)])"
          by (subst nonceLoop.simps) simp
        moreover have "nonceCalls (tr @ [GetNextNonce addr, Sleep (1000 * attempt)]) = Suc (nonceCalls tr)"
          "proposeCalls (tr @ [GetNextNonce addr, Sleep (1000 * attempt)]) = proposeCalls tr"
          "createCalls (tr @ [GetNextNonce addr, Sleep (1000 * attempt)]) = createCalls tr"
          by (simp_all add: nonceCalls_def proposeCalls_def createCalls_def)
        ultimately show ?thesis
          using "1.IH"[OF le Inl False] le False by auto
      qed
    qed
  qed
qed

section \<open>The nonce resolver\<close>

text \<open>
  Claim C4. The nonce resolver asks the wallet service for the next nonce at most three
  times. A query that succeeds ends the loop with its value and no further call. After a
  failed first query it waits 1000 ms, after a failed second one 2000 ms. When the third
  query fails too, it fails with the message "Failed to get nonce after 3 attempts: "
  followed by the message of the third error, and the whole flow fails with that error
  without building a transaction or proposing one.
\<close>

theorem nonce_retry_budget:
  "(getNextNonce E tr a = Inr n \<longrightarrow>
      resolveNonce E a tr = (Inr n, tr @ [GetNextNonce a]))
   \<and> (getNextNonce E tr a = Inl e1 \<and>
      getNextNonce E (tr @ [GetNextNonce a, Sleep 1000]) a = Inr n \<longrightarrow>
      resolveNonce E a tr = (Inr n, tr @ [GetNextNonce a, Sleep 1000, GetNextNonce a]))
   \<and> (getNextNonce E tr a = Inl e1 \<and>
      getNextNonce E (tr @ [GetNextNonce a, Sleep 1000]) a = Inl e2 \<and>
      getNextNonce E (tr @ [GetNextNonce a, Sleep 1000, GetNextNonce a, Sleep 2000]) a = Inr n \<longrightarrow>
      resolveNonce E a tr =
        (Inr n, tr @ [GetNextNonce a, Sleep 1000, GetNextNonce a, Sleep 2000, GetNextNonce a]))
   \<and> (getNextNonce E tr a = Inl e1 \<and>
      getNextNonce E (tr @ [GetNextNonce a, Sleep 1000]) a = Inl e2 \<and>
      getNextNonce E (tr @ [GetNextNonce a, Sleep 1000, GetNextNonce a, Sleep 2000]) a = Inl e3 \<longrightarrow>
      resolveNonce E a tr =
        (Inl (JsError (''Failed to get nonce after 3 attempts: '' @ errorMessage e3)),
         tr @ [GetNextNonce a, Sleep 1000, GetNextNonce a, Sleep 2000, GetNextNonce a]))
   \<and> nonceCalls (snd (resolveNonce E a tr)) \<le> nonceCalls tr + 3
   \<and> (initSafe E inputs files networkName = Inr transactions \<and>
      fst (resolveNonce E (safeAddress inputs) []) = Inl err \<longrightarrow>
      fst (proposeToSafe E inputs files networkName) = Inl err \<and>
      createCalls (snd (proposeToSafe E inputs files networkName)) = 0 \<and>
      proposeCalls (snd (proposeToSafe E inputs files networkName)) = 0)"
proof -
  have calls: "nonceCalls (snd (resolveNonce E a tr)) \<le> nonceCalls tr + 3"
    using nonceLoop_calls[of E a 1 0 tr] by (simp add: resolveNonce_def nonceMaxRetries_def)
  have abort: "fst (proposeToSafe E inputs files networkName) = Inl err \<and>
      createCalls (snd (proposeToSafe E inputs files networkName)) = 0 \<and>
      proposeCalls (snd (proposeToSafe E inputs files networkName)) = 0"
    if i: "initSafe E inputs files networkName = Inr transactions"
      and f: "fst (resolveNonce E (safeAddress inputs) []) = Inl err"
  proof -
    obtain r t where rt: "resolveNonce E (safeAddress inputs) [] = (r, t)"
      by (cases "resolveNonce E (safeAddress inputs) []")
    with f have r: "r = Inl err" by simp
    have "createCalls t = 0 \<and> proposeCalls t = 0"
      using nonceLoop_calls[of E "safeAddress inputs" 1 0 "[]"] rt
      by (simp add: resolveNonce_def createCalls_def proposeCalls_def)
    with i rt r show ?thesis
      by (simp add: proposeToSafe_def signProposal_def)
  qed
  show ?thesis
    using calls abort
    by (simp add: resolveNonce_def nonceLoop_unfold1 nonceLoop_unfold2 nonceLoop_unfold3
        nonceFailed_message)
qed


theorem nonce_retry_budget_witness:
  "resolveNonce (mockEnv [] [Inr 7] []) ''0xsafe'' [] = (Inr 7, [GetNextNonce ''0xsafe''])
   \<and> resolveNonce (mockEnv [] [Inl (JsError ''timeout''), Inr 7] []) ''0xsafe'' [] =
       (Inr 7, [GetNextNonce ''0xsafe'', Sleep 1000, GetNextNonce ''0xsafe''])
   \<and> resolveNonce (mockEnv [] [Inl (JsError ''timeout''), Inl (JsThrown ''502''), Inr 7] []) ''0xsafe'' [] =
       (Inr 7, [GetNextNonce ''0xsafe'', Sleep 1000, GetNextNonce ''0xsafe'', Sleep 2000,
                GetNextNonce ''0xsafe''])
   \<and> resolveNonce (mockEnv [] [Inl (JsError ''timeout''), Inl (JsThrown ''502''), Inl (JsError ''503'')] [])
         ''0xsafe'' [] =
       (Inl (JsError ''Failed to get nonce after 3 attempts: 503''),
        [GetNextNonce ''0xsafe'', Sleep 1000, GetNextNonce ''0xsafe'', Sleep 2000,
         GetNextNonce ''0xsafe''])
   \<and> fst (proposeToSafe
            (mockEnv [(''update.cbor'', artifact None ''body'')]
               [Inl (JsError ''timeout''), Inl (JsThrown ''502''), Inl (JsError ''503'')] [])
            (testInputs False) updateOnly ''testnet'') =
       Inl (JsError ''Failed to get nonce after 3 attempts: 503'')
   \<and> createCalls (snd (proposeToSafe
            (mockEnv [(''update.cbor'', artifact None ''body'')]
               [Inl (JsError ''timeout''), Inl (JsThrown ''502''), Inl (JsError ''503'')] [])
            (testInputs False) updateOnly ''testnet'')) = 0"
proof -
  let ?a = "''0xsafe''"
  let ?fs = "[(''update.cbor'', artifact None ''body'')]"
  let ?r3 = "[Inl (JsError ''timeout''), Inl (JsThrown ''502''), Inl (JsError ''503'')]"
  have q: "getNextNonce (mockEnv fs rs ps) tr a = respond rs (nonceCalls tr) (Inl (JsError ''no answer''))"
    for fs rs ps tr a
    by (simp add: mockEnv_def)
  have c1: "resolveNonce (mockEnv [] [Inr 7] []) ?a [] = (Inr 7, [GetNextNonce ?a])"
    using nonce_retry_budget[where E = "mockEnv [] [Inr 7] []" and tr = "[]" and a = ?a and n = 7]
    by (simp add: q respond_def nonceCalls_def)
  have c2: "resolveNonce (mockEnv [] [Inl (JsError ''timeout''), Inr 7] []) ?a [] =
       (Inr 7, [GetNextNonce ?a, Sleep 1000, GetNextNonce ?a])"
    using nonce_retry_budget[where E = "mockEnv [] [Inl (JsError ''timeout''), Inr 7] []"
        and tr = "[]" and a = ?a and n = 7 and ?e1.0 = "JsError ''timeout''"]
    by (simp add: q respond_def nonceCalls_def)
  have c3: "resolveNonce (mockEnv [] [Inl (JsError ''timeout''), Inl (JsThrown ''502''), Inr 7] []) ?a [] =
       (Inr 7, [GetNextNonce ?a, Sleep 1000, GetNextNonce ?a, Sleep 2000, GetNextNonce ?a])"
    using nonce_retry_budget[where E = "mockEnv [] [Inl (JsError ''timeout''), Inl (JsThrown ''502''), Inr 7] []"
        and tr = "[]" and a = ?a and n = 7 and ?e1.0 = "JsError ''timeout''" and ?e2.0 = "JsThrown ''502''"]
    by (simp add: q respond_def nonceCalls_def)
  have c4: "resolveNonce (mockEnv fs ?r3 []) ?a [] =
       (Inl (JsError ''Failed to get nonce after 3 attempts: 503''),
        [GetNextNonce ?a, Sleep 1000, GetNextNonce ?a, Sleep 2000, GetNextNonce ?a])" for fs
    using nonce_retry_budget[where E = "mockEnv fs ?r3 []"
        and tr = "[]" and a = ?a and ?e1.0 = "JsError ''timeout''" and ?e2.0 = "JsThrown ''502''"
        and ?e3.0 = "JsError ''503''"]
    by (simp add: q respond_def nonceCalls_def)
  have i: "initSafe (mockEnv ?fs ?r3 []) (testInputs False) updateOnly ''testnet'' =
      Inr [toDescriptor (roflCallUpdate (mockEnv ?fs ?r3 []) (runtimeId testnet) ''body'')]"
    by (simp add: initSafe_def generateTransactions_def processUpdateFile_def processDeployFile_def
        NETWORKS_def mockEnv_def updateOnly_def testInputs_def artifact_def effectiveChainId_def)
  have c5: "fst (proposeToSafe (mockEnv ?fs ?r3 []) (testInputs False) updateOnly ''testnet'') =
       Inl (JsError ''Failed to get nonce after 3 attempts: 503'')
     \<and> createCalls (snd (proposeToSafe (mockEnv ?fs ?r3 []) (testInputs False) updateOnly ''testnet'')) = 0"
    using nonce_retry_budget[where E = "mockEnv ?fs ?r3 []" and inputs = "testInputs False"
        and files = updateOnly and networkName = "''testnet''"
        and err = "JsError ''Failed to get nonce after 3 attempts: 503''"] i c4[of ?fs]
    by (simp add: testInputs_def)
  from c1 c2 c3 c4[of "[]"] c5 show ?thesis by simp
qed


section \<open>The submission pipeline\<close>

lemma proposeLoop_unfold0:
  "proposeLoop E sp 0 tr =
     (case proposeAttempt E sp tr of
        (None, t1) \<Rightarrow> (Inr (sp_safeTxHash sp), t1)
      | (Some e, t1) \<Rightarrow> proposeLoop E sp (Suc 0) (t1 @ [Sleep 1000]))"
  by (subst proposeLoop.simps) (simp add: maxRetries_def split: prod.splits option.splits)












lemma buildAndSign_trace:
  "snd (buildAndSign E transactions nonce tr) =
     tr @ [CreateTransaction (metaTransactions transactions) nonce]"
  by (simp add: buildAndSign_def Let_def split: sum.splits)

lemma signProposal_no_propose:
  "proposeCalls (snd (signProposal E inputs files networkName)) = 0"
proof (cases "initSafe E inputs files networkName")
  case (Inl e)
  then show ?thesis by (simp add: signProposal_def proposeCalls_def)
next
  case (Inr transactions)
  obtain r t where rt: "resolveNonce E (safeAddress inputs) [] = (r, t)"
    by (cases "resolveNonce E (safeAddress inputs) []")
  have t: "proposeCalls t = 0"
    using nonceLoop_calls[of E "safeAddress inputs" 1 0 "[]"] rt
    by (simp add: resolveNonce_def proposeCalls_def)
  show ?thesis
  proof (cases r)
    case (Inl e)
    with Inr rt t show ?thesis by (simp add: signProposal_def)
  next
    case nonce: (Inr n)
    have "proposeCalls (snd (buildAndSign E transactions n t)) = 0"
      using t by (simp add: buildAndSign_trace proposeCalls_def)
    with Inr rt nonce show ?thesis by (simp add: signProposal_def)
  qed
qed

text \<open>
  Claim C2. In a dry run the flow never calls the wallet service's propose-transaction
  endpoint, whatever happens on the way; and when the stages before the submission
  pipeline deliver a signed proposal (with the non-empty hash the wallet SDK computes),
  the flow returns exactly that hash, with no event after the signing.
\<close>

theorem dry_run_returns_hash_without_proposing:
  "dryRun inputs \<Longrightarrow>
   proposeCalls (snd (proposeToSafe E inputs files networkName)) = 0
   \<and> (signProposal E inputs files networkName = (Inr sp, tr) \<and> sp_safeTxHash sp \<noteq> [] \<longrightarrow>
      proposeToSafe E inputs files networkName = (Inr (sp_safeTxHash sp), tr)
      \<and> sp_safeTxHash sp \<noteq> [] \<and> proposeCalls tr = 0)"
proof -
  assume dry: "dryRun inputs"
  obtain r t where rt: "signProposal E inputs files networkName = (r, t)"
    by (cases "signProposal E inputs files networkName")
  have t: "proposeCalls t = 0"
    using signProposal_no_propose[of E inputs files networkName] rt by simp
  have "proposeCalls (snd (proposeToSafe E inputs files networkName)) = 0"
    using rt t dry by (cases r) (simp_all add: proposeToSafe_def submit_def)
  moreover have "proposeToSafe E inputs files networkName = (Inr (sp_safeTxHash sp), tr)
      \<and> proposeCalls tr = 0"
    if "signProposal E inputs files networkName = (Inr sp, tr)"
    using that rt t dry by (simp add: proposeToSafe_def submit_def)
  ultimately show ?thesis by simp
qed

theorem dry_run_returns_hash_without_proposing_witness:
  "dryRun (testInputs True)
   \<and> proposeToSafe (mockEnv [(''update.cbor'', artifact None ''body'')] [Inr 7] [])
        (testInputs True) updateOnly ''testnet'' =
      (Inr ''0xhash'',
       [GetNextNonce ''0xsafe'',
        CreateTransaction
          [\<lparr> mt_to = ''0x0100000000000000000000000000000000000103'',
             mt_data = ''rofl.Update:body'', mt_value = ''0'', mt_operation = Call \<rparr>] 7])
   \<and> proposeCalls (snd (proposeToSafe (mockEnv [(''update.cbor'', artifact None ''body'')] [Inr 7] [])
        (testInputs True) updateOnly ''testnet'')) = 0"
proof -
  let ?E = "mockEnv [(''update.cbor'', artifact None ''body'')] [Inr 7] []"
  let ?sp = "\<lparr> sp_transactionData = ''safe-transaction'', sp_safeTxHash = ''0xhash'',
        sp_signature = \<lparr> signer = ''0xproposer'', sig_data = ''0xsignature'' \<rparr> \<rparr>"
  let ?tr = "[GetNextNonce ''0xsafe'',
        CreateTransaction
          [\<lparr> mt_to = ''0x0100000000000000000000000000000000000103'',
             mt_data = ''rofl.Update:body'', mt_value = ''0'', mt_operation = Call \<rparr>] 7]"
  have dry: "dryRun (testInputs True)"
    by (simp add: testInputs_def)
  have i: "initSafe ?E (testInputs True) updateOnly ''testnet'' =
      Inr [\<lparr> tx_to = ''0x0100000000000000000000000000000000000103'',
             tx_data = ''rofl.Update:body'', tx_value = ''0'' \<rparr>]"
    by (simp add: initSafe_def generateTransactions_def processUpdateFile_def processDeployFile_def
        NETWORKS_def mockEnv_def updateOnly_def testInputs_def artifact_def effectiveChainId_def
        toDescriptor_def)
  have n: "resolveNonce ?E ''0xsafe'' [] = (Inr 7, [GetNextNonce ''0xsafe''])"
    by (simp add: resolveNonce_def nonceLoop_unfold1 mockEnv_def respond_def nonceCalls_def)
  have s: "signProposal ?E (testInputs True) updateOnly ''testnet'' = (Inr ?sp, ?tr)"
    using i n
    by (simp add: signProposal_def buildAndSign_def metaTransactions_def testInputs_def mockEnv_def)
  from dry_run_returns_hash_without_proposing[OF dry, of ?E updateOnly "''testnet''" ?sp ?tr] s dry
  show ?thesis by simp
qed

section \<open>Empty proposals\<close>

text \<open>
  Claim C3. When subcall generation yields no descriptor, the flow fails with the error
  "No transaction files found to propose" before any call to the wallet service: no
  next-nonce query and no proposal.
\<close>

theorem empty_proposal_rejected:
  "loadModule E ''xhr2'' = None \<Longrightarrow>
   loadModule E ''@safe-global/protocol-kit'' = None \<Longrightarrow>
   loadModule E ''@safe-global/api-kit'' = None \<Longrightarrow>
   loadModule E ''@safe-global/types-kit'' = None \<Longrightarrow>
   generateTransactions E files networkName = Inr [] \<Longrightarrow>
   proposeToSafe E inputs files networkName =
     (Inl (JsError ''No transaction files found to propose''), [])
   \<and> nonceCalls (snd (proposeToSafe E inputs files networkName)) = 0
   \<and> proposeCalls (snd (proposeToSafe E inputs files networkName)) = 0"
proof -
  assume m: "loadModule E ''xhr2'' = None" "loadModule E ''@safe-global/protocol-kit'' = None"
    "loadModule E ''@safe-global/api-kit'' = None" "loadModule E ''@safe-global/types-kit'' = None"
    and g: "generateTransactions E files networkName = Inr []"
  from g have "NETWORKS networkName \<noteq> None"
    by (cases "NETWORKS networkName") (simp_all add: generateTransactions_def)
  then obtain networkInfo where n: "NETWORKS networkName = Some networkInfo" by auto
  have "initSafe E inputs files networkName = Inl noTransactions"
    using m g n by (simp add: initSafe_def)
  then have "proposeToSafe E inputs files networkName = (Inl noTransactions, [])"
    by (simp add: proposeToSafe_def signProposal_def)
  then show ?thesis
    by (simp add: noTransactions_def nonceCalls_def proposeCalls_def)
qed


theorem empty_proposal_rejected_witness:
  "generateTransactions (mockEnv [] [Inr 7] [None]) bothFiles ''mainnet'' = Inr []
   \<and> proposeToSafe (mockEnv [] [Inr 7] [None]) (testInputs False) bothFiles ''mainnet'' =
       (Inl (JsError ''No transaction files found to propose''), [])"
proof -
  let ?E = "mockEnv [] [Inr 7] [None]"
  have m: "loadModule ?E name = None" for name
    by (simp add: mockEnv_def)
  have g: "generateTransactions ?E bothFiles ''mainnet'' = Inr []"
    by (simp add: generateTransactions_def processUpdateFile_def processDeployFile_def
        NETWORKS_def mockEnv_def bothFiles_def)
  from empty_proposal_rejected[OF m m m m g, of "testInputs False"] g show ?thesis by simp
qed


section \<open>Subcall generation\<close>

lemma toDescriptor_value:
  "tx_value (toDescriptor t) =
     (case sub_value t of
        None \<Rightarrow> ''0''
      | Some (JsBigInt v) \<Rightarrow> intToString v
      | Some (JsNumber truthy text) \<Rightarrow> if truthy then text else ''0'')"
  by (simp add: toDescriptor_def intToString_def digitChar_def split: option.splits js_numeric.splits)

lemma startsWith_nonempty: "startsWith m ''roflmarket.'' \<Longrightarrow> m \<noteq> []"
  by (auto simp add: startsWith_def)

lemma generateTransactions_blocks:
  "NETWORKS networkName = Some networkInfo \<Longrightarrow>
   loadModule E ''@oasisprotocol/client'' = None \<Longrightarrow>
   loadModule E ''@oasisprotocol/client-rt'' = None \<Longrightarrow>
   fromHex E (runtimeIdOf networkInfo) = Inr rt \<Longrightarrow>
   processUpdateFile E files rt [] = Inr us \<Longrightarrow>
   generateTransactions E files networkName = processDeployFile E files rt us"
  by (simp add: generateTransactions_def)

lemma processUpdateFile_present:
  "updateFile files = Some uf \<Longrightarrow> uf \<noteq> [] \<Longrightarrow> existsSync E uf \<Longrightarrow>
   readFileSync E uf = Inr ud \<Longrightarrow> fromCBOR E ud = Inr uc \<Longrightarrow> cbor_call uc = Some ucall \<Longrightarrow>
   processUpdateFile E files rt ts = Inr (ts @ [toDescriptor (roflCallUpdate E rt (call_body ucall))])"
  by (simp add: processUpdateFile_def)

lemma processDeployFile_method:
  "deployFile files = Some df \<Longrightarrow> df \<noteq> [] \<Longrightarrow> existsSync E df \<Longrightarrow>
   readFileSync E df = Inr dd \<Longrightarrow> fromCBOR E dd = Inr dc \<Longrightarrow> cbor_call dc = Some dcall \<Longrightarrow>
   call_method dcall = Some m \<Longrightarrow> m \<noteq> [] \<Longrightarrow>
   processDeployFile E files rt ts =
     (if startsWith m ''roflmarket.''
      then Inr (ts @ [toDescriptor (roflmarketCallInstanceExecuteCmds E rt (call_body dcall))])
      else Inl (unsupportedMethod m))"
  by (simp add: processDeployFile_def)

lemma batch_order:
  assumes "NETWORKS networkName = Some networkInfo"
    and "loadModule E ''@oasisprotocol/client'' = None"
    and "loadModule E ''@oasisprotocol/client-rt'' = None"
    and "fromHex E (runtimeIdOf networkInfo) = Inr rt"
    and "updateFile files = Some uf" and "uf \<noteq> []" and "existsSync E uf"
    and "readFileSync E uf = Inr ud" and "fromCBOR E ud = Inr uc" and "cbor_call uc = Some ucall"
    and "deployFile files = Some df" and "df \<noteq> []" and "existsSync E df"
    and "readFileSync E df = Inr dd" and "fromCBOR E dd = Inr dc" and "cbor_call dc = Some dcall"
    and "call_method dcall = Some m" and "startsWith m ''roflmarket.''"
  shows "(let u = toDescriptor (roflCallUpdate E rt (call_body ucall));
              d = toDescriptor (roflmarketCallInstanceExecuteCmds E rt (call_body dcall))
          in generateTransactions E files networkName = Inr [u, d]
             \<and> snd (buildAndSign E [u, d] nonce tr) =
                 tr @ [CreateTransaction (metaTransactions [u, d]) nonce]
             \<and> map (\<lambda>t. (mt_to t, mt_data t, mt_operation t)) (metaTransactions [u, d]) =
                 [(tx_to u, tx_data u, Call), (tx_to d, tx_data d, Call)])"
proof -
  define u where "u = toDescriptor (roflCallUpdate E rt (call_body ucall))"
  define d where "d = toDescriptor (roflmarketCallInstanceExecuteCmds E rt (call_body dcall))"
  have up: "processUpdateFile E files rt [] = Inr [u]"
    using assms by (simp add: processUpdateFile_present u_def)
  have "m \<noteq> []"
    using assms(18) by (rule startsWith_nonempty)
  then have "processDeployFile E files rt [u] = Inr [u, d]"
    using assms by (simp add: processDeployFile_method d_def)
  with up assms(1-4) have "generateTransactions E files networkName = Inr [u, d]"
    by (simp add: generateTransactions_blocks)
  then show ?thesis
    unfolding u_def d_def by (simp add: buildAndSign_trace metaTransactions_def)
qed

lemma batch_order_example:
  "generateTransactions
     (mockEnv [(''update.cbor'', artifact (Some ''rofl.Update'') ''enclaves''),
               (''deploy.cbor'', artifact (Some ''roflmarket.InstanceExecuteCmds'') ''cmds'')] [] [])
     bothFiles ''mainnet'' =
   Inr [\<lparr> tx_to = ''0x0100000000000000000000000000000000000103'',
          tx_data = ''rofl.Update:enclaves'', tx_value = ''0'' \<rparr>,
        \<lparr> tx_to = ''0x0100000000000000000000000000000000000103'',
          tx_data = ''roflmarket.InstanceExecuteCmds:cmds'', tx_value = ''0'' \<rparr>]"
  using batch_order[where
      E = "mockEnv [(''update.cbor'', artifact (Some ''rofl.Update'') ''enclaves''),
               (''deploy.cbor'', artifact (Some ''roflmarket.InstanceExecuteCmds'') ''cmds'')] [] []"
      and files = bothFiles and networkName = "''mainnet''"
      and networkInfo = "Profile mainnet" and rt = "runtimeId mainnet"
      and uf = "''update.cbor''" and ud = "''update.cbor''"
      and uc = "artifact (Some ''rofl.Update'') ''enclaves''"
      and ucall = "\<lparr> call_method = Some ''rofl.Update'', call_body = ''enclaves'' \<rparr>"
      and df = "''deploy.cbor''" and dd = "''deploy.cbor''"
      and dc = "artifact (Some ''roflmarket.InstanceExecuteCmds'') ''cmds''"
      and dcall = "\<lparr> call_method = Some ''roflmarket.InstanceExecuteCmds'', call_body = ''cmds'' \<rparr>"
      and m = "''roflmarket.InstanceExecuteCmds''"]
  by (simp add: NETWORKS_def mockEnv_fields bothFiles_def artifact_def startsWith_def Let_def
      toDescriptor_def)

lemma unsupportedMethod_mentions:
  "sublist m (errorMessage (unsupportedMethod m))
   \<and> sublist ''rofl.Update'' (errorMessage (unsupportedMethod m))
   \<and> sublist ''roflmarket.*'' (errorMessage (unsupportedMethod m))"
proof -
  let ?msg = "errorMessage (unsupportedMethod m)"
  have "?msg = ''Unsupported deploy CBOR method: '' @ m @ ''. Supported methods: rofl.Update, roflmarket.*''"
    by (simp add: unsupportedMethod_def)
  then have a: "sublist m ?msg"
    by (metis sublist_appendI)
  have "?msg = (''Unsupported deploy CBOR method: '' @ m @ ''. Supported methods: '')
      @ ''rofl.Update'' @ '', roflmarket.*''"
    by (simp add: unsupportedMethod_def)
  then have b: "sublist ''rofl.Update'' ?msg"
    by (metis sublist_appendI)
  have "?msg = (''Unsupported deploy CBOR method: '' @ m @ ''. Supported methods: rofl.Update, '')
      @ ''roflmarket.*'' @ []"
    by (simp add: unsupportedMethod_def)
  then have c: "sublist ''roflmarket.*'' ?msg"
    by (metis sublist_appendI)
  from a b c show ?thesis by simp
qed

lemma method_gating:
  assumes "NETWORKS networkName = Some networkInfo"
    and "loadModule E ''@oasisprotocol/client'' = None"
    and "loadModule E ''@oasisprotocol/client-rt'' = None"
    and "fromHex E (runtimeIdOf networkInfo) = Inr rt"
    and "processUpdateFile E files rt [] = Inr us"
    and "deployFile files = Some df" and "df \<noteq> []" and "existsSync E df"
    and "readFileSync E df = Inr dd" and "fromCBOR E dd = Inr dc" and "cbor_call dc = Some dcall"
    and "call_method dcall = Some m"
  shows "(m \<noteq> [] \<and> \<not> startsWith m ''roflmarket.'' \<and> m \<noteq> ''rofl.Update'' \<longrightarrow>
            generateTransactions E files networkName =
              Inl (JsError (''Unsupported deploy CBOR method: '' @ m
                            @ ''. Supported methods: rofl.Update, roflmarket.*''))
            \<and> sublist ''rofl.Update'' (errorMessage (unsupportedMethod m))
            \<and> sublist ''roflmarket.*'' (errorMessage (unsupportedMethod m)))
         \<and> (m = ''roflmarket.InstanceExecuteCmds'' \<longrightarrow>
            generateTransactions E files networkName =
              Inr (us @ [toDescriptor (roflmarketCallInstanceExecuteCmds E rt (call_body dcall))]))"
proof -
  have g: "generateTransactions E files networkName = processDeployFile E files rt us"
    using assms(1-5) by (rule generateTransactions_blocks)
  have bad: "generateTransactions E files networkName =
      Inl (JsError (''Unsupported deploy CBOR method: '' @ m
                    @ ''. Supported methods: rofl.Update, roflmarket.*''))"
    if "m \<noteq> []" "\<not> startsWith m ''roflmarket.''"
    using that assms(6-12) g by (simp add: processDeployFile_method unsupportedMethod_def)
  have good: "generateTransactions E files networkName =
      Inr (us @ [toDescriptor (roflmarketCallInstanceExecuteCmds E rt (call_body dcall))])"
    if "m = ''roflmarket.InstanceExecuteCmds''"
  proof -
    from that have "m \<noteq> []" "startsWith m ''roflmarket.''"
      by (simp_all add: startsWith_def)
    with assms(6-12) g show ?thesis by (simp add: processDeployFile_method)
  qed
  from bad good unsupportedMethod_mentions[of m] show ?thesis by blast
qed

lemma method_gating_example:
  "generateTransactions (mockEnv [(''deploy.cbor'', artifact (Some ''unknown.Foo'') ''body'')] [] [])
     deployOnly ''testnet'' =
     Inl (JsError ''Unsupported deploy CBOR method: unknown.Foo. Supported methods: rofl.Update, roflmarket.*'')
   \<and> generateTransactions
       (mockEnv [(''deploy.cbor'', artifact (Some ''roflmarket.InstanceExecuteCmds'') ''cmds'')] [] [])
       deployOnly ''testnet'' =
     Inr [\<lparr> tx_to = ''0x0100000000000000000000000000000000000103'',
            tx_data = ''roflmarket.InstanceExecuteCmds:cmds'', tx_value = ''0'' \<rparr>]"
proof -
  let ?E1 = "mockEnv [(''deploy.cbor'', artifact (Some ''unknown.Foo'') ''body'')] [] []"
  let ?E2 = "mockEnv [(''deploy.cbor'', artifact (Some ''roflmarket.InstanceExecuteCmds'') ''cmds'')] [] []"
  have c1: "generateTransactions ?E1 deployOnly ''testnet'' =
     Inl (JsError ''Unsupported deploy CBOR method: unknown.Foo. Supported methods: rofl.Update, roflmarket.*'')"
    using method_gating[where E = ?E1 and files = deployOnly and networkName = "''testnet''"
        and networkInfo = "Profile testnet" and rt = "runtimeId testnet" and us = "[]"
        and df = "''deploy.cbor''" and dd = "''deploy.cbor''"
        and dc = "artifact (Some ''unknown.Foo'') ''body''"
        and dcall = "\<lparr> call_method = Some ''unknown.Foo'', call_body = ''body'' \<rparr>"
        and m = "''unknown.Foo''"]
    by (simp add: NETWORKS_def mockEnv_fields deployOnly_def artifact_def startsWith_def
        processUpdateFile_def)
  have "generateTransactions ?E2 deployOnly ''testnet'' =
     Inr ([] @ [toDescriptor (roflmarketCallInstanceExecuteCmds ?E2 (runtimeId testnet) ''cmds'')])"
    using method_gating[where E = ?E2 and files = deployOnly and networkName = "''testnet''"
        and networkInfo = "Profile testnet" and rt = "runtimeId testnet" and us = "[]"
        and df = "''deploy.cbor''" and dd = "''deploy.cbor''"
        and dc = "artifact (Some ''roflmarket.InstanceExecuteCmds'') ''cmds''"
        and dcall = "\<lparr> call_method = Some ''roflmarket.InstanceExecuteCmds'', call_body = ''cmds'' \<rparr>"
        and m = "''roflmarket.InstanceExecuteCmds''"]
    by (simp add: NETWORKS_def mockEnv_fields deployOnly_def artifact_def processUpdateFile_def)
  then have c2: "generateTransactions ?E2 deployOnly ''testnet'' =
     Inr [\<lparr> tx_to = ''0x0100000000000000000000000000000000000103'',
            tx_data = ''roflmarket.InstanceExecuteCmds:cmds'', tx_value = ''0'' \<rparr>]"
    by (simp add: mockEnv_fields toDescriptor_def)
  from c1 c2 show ?thesis by simp
qed

text \<open>
  Claim C6. Every deploy artifact whose method is present but outside the supported
  families is expected to fail with the unsupported-method error. The code does so for
  every such method that is not empty (\<open>method_gating\<close>, which also gives the one
  descriptor for \<open>roflmarket.InstanceExecuteCmds\<close>), but not for the empty string: it is
  present and outside both families, yet falsy for the guard \<open>deployCbor.call.method\<close>,
  which has no \<open>else\<close>. No error is thrown and no descriptor is produced.
\<close>

theorem empty_method_silently_skipped:
  "generateTransactions (mockEnv [(''deploy.cbor'', artifact (Some []) ''body'')] [] [])
     deployOnly ''testnet'' = Inr []
   \<and> \<not> startsWith [] ''roflmarket.'' \<and> [] \<noteq> ''rofl.Update''"
  by (simp add: generateTransactions_def processUpdateFile_def processDeployFile_def
      NETWORKS_def mockEnv_fields deployOnly_def artifact_def startsWith_def)

text \<open>
  Claim C1. A deploy artifact that decodes to a call without a method is expected to fail
  with the unsupported-method error. The code does not do that: the guard has no \<open>else\<close>,
  so the artifact is dropped without an error. Alone it leaves the list empty; next to an
  update artifact the proposal carries the update call only.
\<close>

theorem missing_method_silently_skipped:
  "generateTransactions (mockEnv [(''deploy.cbor'', artifact None ''body'')] [] [])
     deployOnly ''testnet'' = Inr []
   \<and> generateTransactions
       (mockEnv [(''update.cbor'', artifact None ''enclaves''),
                 (''deploy.cbor'', artifact None ''body'')] [] [])
       bothFiles ''testnet'' =
     Inr [\<lparr> tx_to = ''0x0100000000000000000000000000000000000103'',
            tx_data = ''rofl.Update:enclaves'', tx_value = ''0'' \<rparr>]"
  by (simp add: generateTransactions_def processUpdateFile_def processDeployFile_def
      NETWORKS_def mockEnv_fields deployOnly_def bothFiles_def artifact_def toDescriptor_def)

text \<open>
  Claim C7. A deploy artifact declaring \<open>rofl.Update\<close> is expected to be wrapped by the rofl
  wrapper's update call. The code rejects it, with a message that lists \<open>rofl.Update\<close>
  among the supported methods.
\<close>

theorem deploy_rofl_update_rejected:
  "generateTransactions (mockEnv [(''deploy.cbor'', artifact (Some ''rofl.Update'') ''body'')] [] [])
     deployOnly ''testnet'' =
   Inl (JsError ''Unsupported deploy CBOR method: rofl.Update. Supported methods: rofl.Update, roflmarket.*'')"
  by (simp add: generateTransactions_def processUpdateFile_def processDeployFile_def
      NETWORKS_def mockEnv_fields deployOnly_def artifact_def startsWith_def unsupportedMethod_def)

text \<open>
  What subcall generation returns is what the batched transaction is created from.
\<close>

lemma initSafe_transactions:
  "initSafe E inputs files networkName = Inr transactions \<Longrightarrow>
   generateTransactions E files networkName = Inr transactions"
  by (simp add: initSafe_def split: option.splits sum.splits if_splits)

lemma signProposal_creates_batch:
  "initSafe E inputs files networkName = Inr transactions \<Longrightarrow>
   resolveNonce E (safeAddress inputs) [] = (Inr nonce, tr) \<Longrightarrow>
   snd (signProposal E inputs files networkName) =
     tr @ [CreateTransaction (metaTransactions transactions) nonce]"
  by (simp add: signProposal_def buildAndSign_trace)

text \<open>
  Claim C8. With an update artifact and a deploy artifact both present and decodable the
  batch is expected to be the update descriptor followed by the deploy descriptor. The
  code gives that batch when the deploy artifact declares a roflmarket method
  (\<open>batch_order\<close>, and the third run below). It does not when the deploy artifact declares
  no method: the flow succeeds and proposes a batch holding the update call alone. Nor when
  it declares \<open>rofl.Update\<close>: the flow fails and nothing is proposed.
\<close>

theorem deploy_call_missing_from_batch:
  "proposeToSafe
     (mockEnv [(''update.cbor'', artifact None ''enclaves''),
               (''deploy.cbor'', artifact None ''cmds'')] [Inr 7] [None])
     (testInputs False) bothFiles ''testnet'' =
   (Inr ''0xhash'',
    [GetNextNonce ''0xsafe'',
     CreateTransaction
       [\<lparr> mt_to = ''0x0100000000000000000000000000000000000103'',
          mt_data = ''rofl.Update:enclaves'', mt_value = ''0'', mt_operation = Call \<rparr>] 7,
     ProposeTransaction \<lparr> p_safeAddress = ''0xsafe'', p_safeTransactionData = ''safe-transaction'',
          p_safeTxHash = ''0xhash'', p_senderAddress = ''0xproposer'',
          p_senderSignature = ''0xsignature'' \<rparr>])
   \<and> proposeToSafe
     (mockEnv [(''update.cbor'', artifact None ''enclaves''),
               (''deploy.cbor'', artifact (Some ''rofl.Update'') ''cmds'')] [Inr 7] [None])
     (testInputs False) bothFiles ''testnet'' =
   (Inl (JsError ''Unsupported deploy CBOR method: rofl.Update. Supported methods: rofl.Update, roflmarket.*''),
    [])
   \<and> proposeToSafe
     (mockEnv [(''update.cbor'', artifact None ''enclaves''),
               (''deploy.cbor'', artifact (Some ''roflmarket.InstanceExecuteCmds'') ''cmds'')]
        [Inr 7] [None])
     (testInputs False) bothFiles ''testnet'' =
   (Inr ''0xhash'',
    [GetNextNonce ''0xsafe'',
     CreateTransaction
       [\<lparr> mt_to = ''0x0100000000000000000000000000000000000103'',
          mt_data = ''rofl.Update:enclaves'', mt_value = ''0'', mt_operation = Call \<rparr>,
        \<lparr> mt_to = ''0x0100000000000000000000000000000000000103'',
          mt_data = ''roflmarket.InstanceExecuteCmds:cmds'', mt_value = ''0'',
          mt_operation = Call \<rparr>] 7,
     ProposeTransaction \<lparr> p_safeAddress = ''0xsafe'', p_safeTransactionData = ''safe-transaction'',
          p_safeTxHash = ''0xhash'', p_senderAddress = ''0xproposer'',
          p_senderSignature = ''0xsignature'' \<rparr>])"
  by (simp add: proposeToSafe_def signProposal_def initSafe_def generateTransactions_def
      processUpdateFile_def processDeployFile_def NETWORKS_def mockEnv_fields bothFiles_def
      testInputs_def artifact_def effectiveChainId_def toDescriptor_def startsWith_def
      unsupportedMethod_def noTransactions_def
      resolveNonce_def nonceLoop_unfold1 respond_def nonceCalls_def
      buildAndSign_def metaTransactions_def
      submit_def proposeLoop_unfold0 proposeAttempt_def proposeCalls_def)

section \<open>Network registry\<close>

text \<open>
  Claim C9. Every name other than \<open>mainnet\<close> and \<open>testnet\<close> is expected to fail with the
  unknown-network error. The code misses the names of inherited properties:
  \<open>NETWORKS['constructor']\<close> is truthy, both network checks pass, and the flow goes on with
  an undefined runtime identifier (which the decoder of the test double refuses).
\<close>

theorem inherited_property_passes_network_check:
  "NETWORKS ''constructor'' = Some Inherited
   \<and> generateTransactions (mockEnv [(''update.cbor'', artifact None ''body'')] [Inr 7] [None])
       updateOnly ''constructor'' = Inl (JsError ''fromHex: not a string'')
   \<and> proposeToSafe (mockEnv [(''update.cbor'', artifact None ''body'')] [Inr 7] [None])
       (testInputs False) updateOnly ''constructor'' = (Inl (JsError ''fromHex: not a string''), [])
   \<and> JsError ''fromHex: not a string'' \<noteq> unknownNetwork ''constructor''"
  by (simp add: proposeToSafe_def signProposal_def initSafe_def generateTransactions_def
      NETWORKS_def objectPrototypeKeys_def mockEnv_fields unknownNetwork_def)

text \<open>
  The rest of the registry's contract holds on the code: every other name is refused before
  anything else happens, the two profiles differ in runtime identifier and chain id, and a
  non-empty RPC URL, service URL or chain id of the caller replaces the profile's default
  (the chain id through \<open>BigInt\<close>, which may throw).
\<close>

lemma unknown_network_rejected:
  "networkName \<noteq> ''mainnet'' \<Longrightarrow> networkName \<noteq> ''testnet'' \<Longrightarrow>
   networkName \<notin> set objectPrototypeKeys \<Longrightarrow>
   generateTransactions E files networkName = Inl (unknownNetwork networkName)
   \<and> proposeToSafe E inputs files networkName = (Inl (unknownNetwork networkName), [])"
  by (simp add: proposeToSafe_def signProposal_def initSafe_def generateTransactions_def NETWORKS_def)

lemma devnet_localnet_rejected:
  "proposeToSafe E inputs files ''devnet'' =
     (Inl (JsError ''Unknown network: devnet. Supported: mainnet, testnet''), [])
   \<and> proposeToSafe E inputs files ''localnet'' =
     (Inl (JsError ''Unknown network: localnet. Supported: mainnet, testnet''), [])"
  by (simp add: proposeToSafe_def signProposal_def initSafe_def NETWORKS_def objectPrototypeKeys_def
      unknownNetwork_def)

lemma mainnet_testnet_distinct:
  "NETWORKS ''mainnet'' = Some (Profile mainnet) \<and> NETWORKS ''testnet'' = Some (Profile testnet)
   \<and> runtimeId mainnet \<noteq> runtimeId testnet \<and> chainId mainnet \<noteq> chainId testnet"
  by (simp add: NETWORKS_def mainnet_def testnet_def)

lemma overrides_take_precedence:
  "rpcUrl inputs (Profile p) = Some (if safeRpcUrl inputs \<noteq> [] then safeRpcUrl inputs else web3Api p)
   \<and> serviceUrl inputs (Profile p) =
       Some (if safeServiceUrl inputs \<noteq> [] then safeServiceUrl inputs else safeApi p)
   \<and> effectiveChainId E inputs (Profile p) =
       (if safeChainId inputs \<noteq> []
        then (case bigInt E (safeChainId inputs) of Inl e \<Rightarrow> Inl e | Inr n \<Rightarrow> Inr (Some n))
        else Inr (Some (chainId p)))"
  by (simp add: rpcUrl_def serviceUrl_def effectiveChainId_def)


section \<open>Redaction of the debug output\<close>

lemma collectInputs_wallet_fields:
  "strField (collectInputs g) ''walletAccount'' = g ''wallet_account''"
  "strField (collectInputs g) ''walletAlgorithm'' = g ''wallet_algorithm''"
  "strField (collectInputs g) ''config'' = g ''config''"
  "strField (collectInputs g) ''walletNumber'' = g ''wallet_number''"
  "strField (collectInputs g) ''walletSecret'' = g ''wallet_secret''"
  by (simp_all add: strField_def collectInputs_def)

lemma redactedInputs_secrets:
  "map_of (redactedInputs (collectInputs g)) ''safeProposerKey'' = Some (JString ''***'')"
  "map_of (redactedInputs (collectInputs g)) ''walletSecret'' = Some (JString ''***'')"
  by (simp_all add: redactedInputs_def collectInputs_def)

lemma redactedInputs_independent:
  assumes "\<forall>k. k \<noteq> ''wallet_secret'' \<and> k \<noteq> ''safe_proposer_key'' \<longrightarrow> g1 k = g2 k"
  shows "redactedInputs (collectInputs g1) = redactedInputs (collectInputs g2)"
  using assms by (simp add: redactedInputs_def collectInputs_def)

lemma redactedWalletArgs_after_secret:
  "0 < i \<Longrightarrow> i < length args \<Longrightarrow> args ! (i - 1) = ''--secret'' \<Longrightarrow>
   redactedWalletArgs args ! i = ''***''"
  by (simp add: redactedWalletArgs_def)

lemma redactedWalletArgs_secret_independent:
  "redactedWalletArgs (pre @ [''--secret'', s1]) = redactedWalletArgs (pre @ [''--secret'', s2])"
proof (rule nth_equalityI)
  show "length (redactedWalletArgs (pre @ [''--secret'', s1])) =
        length (redactedWalletArgs (pre @ [''--secret'', s2]))"
    by (simp add: redactedWalletArgs_def)
next
  fix i
  assume "i < length (redactedWalletArgs (pre @ [''--secret'', s1]))"
  then have i: "i < length pre + 2"
    by (simp add: redactedWalletArgs_def)
  consider "i < length pre" | "i = length pre" | "i = Suc (length pre)"
    using i by linarith
  then show "redactedWalletArgs (pre @ [''--secret'', s1]) ! i =
             redactedWalletArgs (pre @ [''--secret'', s2]) ! i"
  proof cases
    case 1
    then have "i - 1 < length pre" "pre \<noteq> []"
      by auto
    with 1 show ?thesis
      by (simp add: redactedWalletArgs_def nth_append del: upt_Suc)
  next
    case 2
    then show ?thesis
      by (cases "pre = []") (simp_all add: redactedWalletArgs_def nth_append del: upt_Suc)
  next
    case 3
    then show ?thesis
      by (simp add: redactedWalletArgs_def nth_append del: upt_Suc)
  qed
qed


lemma walletArgsDebug_independent:
  assumes "\<forall>k. k \<noteq> ''wallet_secret'' \<and> k \<noteq> ''safe_proposer_key'' \<longrightarrow> g1 k = g2 k"
    and "(g1 ''wallet_secret'' = []) = (g2 ''wallet_secret'' = [])"
  shows "walletArgsDebug (collectInputs g1) = walletArgsDebug (collectInputs g2)"
proof -
  define pre where "pre g =
     [''wallet'', ''import'', g ''wallet_account'', ''--yes'']
     @ (if g ''wallet_algorithm'' \<noteq> [] then [''--algorithm'', g ''wallet_algorithm''] else [])
     @ (if g ''config'' \<noteq> [] then [''--config'', g ''config''] else [])
     @ (if g ''wallet_number'' \<noteq> [] then [''--number'', g ''wallet_number''] else [])"
    for g :: "string \<Rightarrow> string"
  have args: "walletImportArgs (collectInputs g) =
      (if g ''wallet_secret'' \<noteq> [] then pre g @ [''--secret'', g ''wallet_secret''] else pre g)" for g
    by (simp add: walletImportArgs_def collectInputs_wallet_fields pre_def)
  have pre: "pre g1 = pre g2"
    using assms(1) by (simp add: pre_def)
  have "redactedWalletArgs (walletImportArgs (collectInputs g1)) =
        redactedWalletArgs (walletImportArgs (collectInputs g2))"
  proof (cases "g1 ''wallet_secret'' = []")
    case True
    with assms(2) pre show ?thesis by (simp add: args)
  next
    case False
    with assms(2) pre show ?thesis
      by (simp add: args redactedWalletArgs_secret_independent)
  qed
  then show ?thesis by (simp add: walletArgsDebug_def)
qed

text \<open>
  Claim C10, amended. In the object logged as "Collected inputs", \<open>safeProposerKey\<close> and
  \<open>walletSecret\<close> are both \<open>***\<close>, and in the logged wallet-import arguments every
  argument right after \<open>--secret\<close> is \<open>***\<close>. So for two runs whose inputs differ only in
  the wallet secret and the proposer key, the logged inputs are the same string, and the
  logged wallet-import command is the same string provided the two wallet secrets are both
  empty or both non-empty.
\<close>

theorem debug_output_redacted:
  "(\<forall>k. k \<noteq> ''wallet_secret'' \<and> k \<noteq> ''safe_proposer_key'' \<longrightarrow> g1 k = g2 k) \<Longrightarrow>
   map_of (redactedInputs (collectInputs g1)) ''safeProposerKey'' = Some (JString ''***'')
   \<and> map_of (redactedInputs (collectInputs g1)) ''walletSecret'' = Some (JString ''***'')
   \<and> (\<forall>i. 0 < i \<and> i < length (walletImportArgs (collectInputs g1)) \<and>
           walletImportArgs (collectInputs g1) ! (i - 1) = ''--secret'' \<longrightarrow>
           redactedWalletArgs (walletImportArgs (collectInputs g1)) ! i = ''***'')
   \<and> collectedInputsDebug quote g1 = collectedInputsDebug quote g2
   \<and> ((g1 ''wallet_secret'' = []) = (g2 ''wallet_secret'' = []) \<longrightarrow>
        walletArgsDebug (collectInputs g1) = walletArgsDebug (collectInputs g2))"
  using redactedInputs_secrets[of g1] redactedInputs_independent[of g1 g2]
    walletArgsDebug_independent[of g1 g2]
  by (simp add: collectedInputsDebug_def redactedWalletArgs_after_secret)

theorem debug_output_redacted_witness:
  "collectedInputsDebug plainQuote (secretInput ''hunter2'') =
     collectedInputsDebug plainQuote (secretInput ''swordfish'')
   \<and> walletArgsDebug (collectInputs (secretInput ''hunter2'')) =
     walletArgsDebug (collectInputs (secretInput ''swordfish''))
   \<and> redactedWalletArgs (walletImportArgs (collectInputs (secretInput ''hunter2''))) ! 5 = ''***''"
proof -
  have h: "\<forall>k. k \<noteq> ''wallet_secret'' \<and> k \<noteq> ''safe_proposer_key'' \<longrightarrow>
      secretInput ''hunter2'' k = secretInput ''swordfish'' k"
    by (simp add: secretInput_def)
  have a: "walletImportArgs (collectInputs (secretInput ''hunter2'')) =
      [''wallet'', ''import'', ''deployer'', ''--yes'', ''--secret'', ''hunter2'']"
    by (simp add: walletImportArgs_def collectInputs_wallet_fields secretInput_def)
  have e: "(secretInput ''hunter2'' ''wallet_secret'' = []) =
      (secretInput ''swordfish'' ''wallet_secret'' = [])"
    by (simp add: secretInput_def)
  note t = debug_output_redacted[OF h, of plainQuote]
  from t have c1: "collectedInputsDebug plainQuote (secretInput ''hunter2'') =
      collectedInputsDebug plainQuote (secretInput ''swordfish'')"
    by simp
  from t e have c2: "walletArgsDebug (collectInputs (secretInput ''hunter2'')) =
      walletArgsDebug (collectInputs (secretInput ''swordfish''))"
    by simp
  from t have "0 < (5::nat) \<and> 5 < length (walletImportArgs (collectInputs (secretInput ''hunter2''))) \<and>
      walletImportArgs (collectInputs (secretInput ''hunter2'')) ! (5 - 1) = ''--secret'' \<longrightarrow>
      redactedWalletArgs (walletImportArgs (collectInputs (secretInput ''hunter2''))) ! 5 = ''***''"
    by blast
  with a have c3: "redactedWalletArgs (walletImportArgs (collectInputs (secretInput ''hunter2''))) ! 5 = ''***''"
    by simp
  from c1 c2 c3 show ?thesis by simp
qed

text \<open>
  Without that proviso the two debug lines can differ: the pair \<open>--secret ***\<close> is logged
  exactly when a wallet secret is set, so a run with an empty secret and a run with a
  non-empty one are told apart.
\<close>

theorem debug_output_redacted_counterexample:
  "walletArgsDebug (collectInputs (secretInput [])) =
     ''Built walletImportArgs: wallet import deployer --yes''
   \<and> walletArgsDebug (collectInputs (secretInput ''hunter2'')) =
     ''Built walletImportArgs: wallet import deployer --yes --secret ***''"
  by (simp add: walletArgsDebug_def walletImportArgs_def collectInputs_wallet_fields
      secretInput_def redactedWalletArgs_def upt_conv_Cons)


end
